theory Spec2Isabelle
  imports Complex_Main "HOL-Library.AList" "HOL-Library.Word"
begin

section \<open>Common vocabulary of the backend services\<close>

text \<open>
  The backend is a set of service classes over Mongoose models. A service method
  either returns a document or throws; the collections it touches are threaded
  through explicitly, and every method returns the collections as they are after
  the call, also when it throws.
\<close>

type_synonym objectId = string

text \<open>
  \<open>ErrorResponse message statusCode\<close> is the class of \<open>utils/errorHandler.js\<close>.
  The other constructors are the exceptions the runtime and Mongoose raise:
  schema validators that reject a document (with the messages of the validators
  that failed),
  a property read on \<open>undefined\<close>, an identifier in a query that cannot be
  cast to an ObjectId, a violated unique index, and an error of the database
  server.
\<close>

datatype error =
    ErrorResponse string nat
  | ValidationError "string list"
  | TypeError string
  | CastError string
  | DuplicateKey string
  | MongoServerError string

text \<open>\<open>req.user\<close>: the authenticated principal.\<close>

record authUser =
  au_id :: objectId
  au_role :: string










text \<open>
  \<open>updateFirst P f\<close> rewrites the first element that satisfies \<open>P\<close>: the effect
  of saving a document on the collection that holds it (documents are found by
  their \<open>_id\<close>).
\<close>

fun updateFirst :: "('a \<Rightarrow> bool) \<Rightarrow> ('a \<Rightarrow> 'a) \<Rightarrow> 'a list \<Rightarrow> 'a list" where
  "updateFirst P f [] = []"
| "updateFirst P f (x # xs) = (if P x then f x # xs else x # updateFirst P f xs)"

fun removeFirst :: "('a \<Rightarrow> bool) \<Rightarrow> 'a list \<Rightarrow> 'a list" where
  "removeFirst P [] = []"
| "removeFirst P (x # xs) = (if P x then xs else x # removeFirst P xs)"

section \<open>Medicines and orders\<close>

subsection \<open>models/Medicine.js\<close>

record medicine =
  m_id :: objectId
  m_name :: string
  m_description :: string
  m_price :: int
  m_stock :: int
  m_category :: string
  m_imageUrl :: "string list"
  m_manufacturer :: "string option"
  m_expirationDate :: "int option"
  m_createdAt :: int
  m_user :: "objectId option"

text \<open>
  Order documents. \<open>models/Order.js\<close> is not among the sources, so the fields
  are the ones \<open>orderService.js\<close> reads and writes; the five fields that
  \<open>createOrder\<close> passes through from the request may be missing there.
\<close>

record orderItem =
  oi_medicine :: objectId
  oi_name :: string
  oi_price :: int
  oi_quantity :: int

type_synonym payload = "(string \<times> string) list"

record orderData =
  od_orderItems :: "orderItem list option"
  od_shippingAddress :: "string option"
  od_paymentMethod :: "string option"
  od_taxPrice :: "int option"
  od_shippingPrice :: "int option"
  od_totalPrice :: "int option"

record order =
  o_id :: objectId
  o_user :: objectId
  o_orderItems :: "orderItem list"
  o_shippingAddress :: "string option"
  o_paymentMethod :: "string option"
  o_taxPrice :: "int option"
  o_shippingPrice :: "int option"
  o_totalPrice :: "int option"
  o_isPaid :: bool
  o_paidAt :: "int option"
  o_paymentResult :: "payload option"
  o_isDelivered :: bool
  o_deliveredAt :: "int option"
  o_orderStatus :: string

record shop =
  medicines :: "medicine list"
  orders :: "order list"

definition findMedicine :: "objectId \<Rightarrow> medicine list \<Rightarrow> medicine option" where
  "findMedicine i ms = find (\<lambda>m. m_id m = i) ms"

definition findOrder :: "objectId \<Rightarrow> order list \<Rightarrow> order option" where
  "findOrder i os = find (\<lambda>x. o_id x = i) os"

subsection \<open>services/orderService.js\<close>



text \<open>
  Modelled from the spec: the defaults of \<open>models/Order.js\<close>, which is not
  among the sources ("Persist the Order with status=pending, paid=false,
  delivered=false"). \<open>newId\<close> is the identifier the driver generates.
\<close>

definition orderDocument :: "objectId \<Rightarrow> orderData \<Rightarrow> orderItem list \<Rightarrow> objectId \<Rightarrow> order" where
  "orderDocument newId orderData items userId =
     \<lparr> o_id = newId, o_user = userId, o_orderItems = items,
       o_shippingAddress = od_shippingAddress orderData,
       o_paymentMethod = od_paymentMethod orderData,
       o_taxPrice = od_taxPrice orderData,
       o_shippingPrice = od_shippingPrice orderData,
       o_totalPrice = od_totalPrice orderData,
       o_isPaid = False, o_paidAt = None, o_paymentResult = None,
       o_isDelivered = False, o_deliveredAt = None, o_orderStatus = ''pending'' \<rparr>"


text \<open>
  \<open>updateOrderToPaid(id, paymentResultData, authUser)\<close>; \<open>now\<close> is
  \<open>Date.now()\<close>. \<open>order.save()\<close> runs the Order schema on the changed document.
\<close>

definition updateOrderToPaid ::
  "(order \<Rightarrow> bool) \<Rightarrow> int \<Rightarrow> objectId \<Rightarrow> payload \<Rightarrow> authUser \<Rightarrow> shop \<Rightarrow> (error + order) \<times> shop" where
  "updateOrderToPaid orderSchema now i paymentResultData authUser st =
     (case findOrder i (orders st) of
        None \<Rightarrow> (Inl (ErrorResponse ''Order not found'' 404), st)
      | Some order \<Rightarrow>
          if o_isPaid order then (Inl (ErrorResponse ''Order is already paid'' 400), st)
          else if au_role authUser \<noteq> ''admin''
          then (Inl (ErrorResponse ''Not authorized to mark order as paid'' 403), st)
          else let updatedOrder = order\<lparr>o_isPaid := True, o_paidAt := Some now,
                                        o_paymentResult := Some paymentResultData\<rparr> in
               if orderSchema updatedOrder
               then (Inr updatedOrder,
                     st\<lparr>orders := updateFirst (\<lambda>x. o_id x = o_id order) (\<lambda>_. updatedOrder) (orders st)\<rparr>)
               else (Inl (ValidationError [''Order validation failed'']), st))"

section \<open>The query composer\<close>

subsection \<open>Request parameters and query conditions\<close>

text \<open>
  \<open>req.query\<close> as the query-string parser delivers it, and the condition
  objects handed to Mongoose: strings, arrays and objects (an association list
  of keys and values).
\<close>

datatype json = JStr string | JArr "json list" | JObj "(string \<times> json) list"

text \<open>Truthiness of a property that may be missing: objects and arrays are truthy.\<close>

definition jsTruthy :: "json option \<Rightarrow> bool" where
  "jsTruthy v = (case v of None \<Rightarrow> False | Some (JStr s) \<Rightarrow> s \<noteq> [] | Some _ \<Rightarrow> True)"

fun joinComma :: "string list \<Rightarrow> string" where
  "joinComma [] = []"
| "joinComma [x] = x"
| "joinComma (x # y # ys) = x @ CHR '','' # joinComma (y # ys)"

text \<open>\<open>String(v)\<close>, which \<open>parseInt\<close> applies to its argument.\<close>

fun jsString :: "json \<Rightarrow> string" where
  "jsString (JStr s) = s"
| "jsString (JArr xs) = joinComma (map jsString xs)"
| "jsString (JObj kvs) = ''[object Object]''"

text \<open>
  \<open>parseInt(s, 10)\<close>: leading white space, an optional sign, then the longest
  run of decimal digits; \<open>None\<close> is \<open>NaN\<close>.
\<close>

definition isSpace :: "char \<Rightarrow> bool" where
  "isSpace c = (c \<in> set [CHR '' '', CHR 0x09, CHR 0x0A, CHR 0x0B, CHR 0x0C, CHR 0x0D])"

definition isDigit :: "char \<Rightarrow> bool" where
  "isDigit c = (c \<in> set ''0123456789'')"

definition digitValue :: "char \<Rightarrow> nat" where
  "digitValue c = (case map_of (zip ''0123456789'' [0, 1, 2, 3, 4, 5, 6, 7, 8, 9]) c of
                     None \<Rightarrow> 0 | Some n \<Rightarrow> n)"

definition decimalValue :: "string \<Rightarrow> nat" where
  "decimalValue ds = foldl (\<lambda>acc c. 10 * acc + digitValue c) 0 ds"

definition parseDigits :: "string \<Rightarrow> nat option" where
  "parseDigits s = (let ds = takeWhile isDigit s in if ds = [] then None else Some (decimalValue ds))"

definition parseInt :: "string \<Rightarrow> int option" where
  "parseInt s =
     (case dropWhile isSpace s of
        [] \<Rightarrow> None
      | c # cs \<Rightarrow>
          if c = CHR ''-'' then map_option (\<lambda>n. - int n) (parseDigits cs)
          else if c = CHR ''+'' then map_option int (parseDigits cs)
          else map_option int (parseDigits (c # cs)))"

text \<open>\<open>parseInt(v, 10) || dflt\<close> for a property \<open>v\<close> of the request.\<close>

definition parseIntOr :: "json option \<Rightarrow> int \<Rightarrow> int" where
  "parseIntOr v dflt =
     (case v of
        None \<Rightarrow> dflt
      | Some j \<Rightarrow> (case parseInt (jsString j) of
                     None \<Rightarrow> dflt
                   | Some n \<Rightarrow> if n = 0 then dflt else n))"

text \<open>
  The rewriting step of \<open>filter()\<close>:
  \<open>queryStr.replace(/\b(gte|gt|lte|lt)\b/g, match => `$${match}`)\<close> on the
  JSON text of the parameters. Inside the JSON text every key and every string
  value stands between quotes, so the replacement acts on each of them alone:
  a maximal run of word characters that is one of the four operators gets a
  \<open>$\<close> in front. \<open>JSON.stringify\<close> writes a control character as a
  backslash escape that ends in a letter or digit, which then belongs to the
  run that follows; such a run is never an operator (\<open>glued\<close>).
\<close>

definition wordChar :: "char \<Rightarrow> bool" where
  "wordChar c = (c \<in> set ''abcdefghijklmnopqrstuvwxyzABCDEFGHIJKLMNOPQRSTUVWXYZ0123456789_'')"

definition controlChar :: "char \<Rightarrow> bool" where
  "controlChar c = ((of_char c :: nat) < 32)"

definition flushWord :: "bool \<Rightarrow> string \<Rightarrow> string" where
  "flushWord glued w =
     (if \<not> glued \<and> w \<in> set [''gte'', ''gt'', ''lte'', ''lt''] then CHR ''$'' # w else w)"

fun replaceOps :: "bool \<Rightarrow> string \<Rightarrow> string \<Rightarrow> string" where
  "replaceOps glued w [] = flushWord glued w"
| "replaceOps glued w (c # cs) =
     (if wordChar c then replaceOps glued (w @ [c]) cs
      else flushWord glued w @ c # replaceOps (controlChar c) [] cs)"

text \<open>
  \<open>JSON.parse\<close> of the rewritten text: when two keys of an object have become
  equal, the later value wins.
\<close>

fun mongoOps :: "json \<Rightarrow> json" where
  "mongoOps (JStr s) = JStr (replaceOps False [] s)"
| "mongoOps (JArr xs) = JArr (map mongoOps xs)"
| "mongoOps (JObj kvs) =
     JObj (foldl (\<lambda>acc kv. AList.update (fst kv) (snd kv) acc) []
             (map (\<lambda>kv. (replaceOps False [] (fst kv), mongoOps (snd kv))) kvs))"

subsection \<open>The Mongoose query and its execution\<close>

text \<open>
  A Mongoose query under construction: the conditions merged so far and the
  options set by \<open>sort\<close>, \<open>select\<close>, \<open>skip\<close> and \<open>limit\<close>.
  \<open>Model.find()\<close> is the query with no conditions and no options.
\<close>

record mquery =
  q_conditions :: "(string \<times> json) list"
  q_sort :: "string option"
  q_select :: "string option"
  q_skip :: "int option"
  q_limit :: "int option"

definition Model_find :: mquery where
  "Model_find = \<lparr> q_conditions = [], q_sort = None, q_select = None, q_skip = None, q_limit = None \<rparr>"

text \<open>
  \<open>query.find(conditions)\<close> merges the conditions key by key into the query's
  own. (Mongoose merges two objects under the same key further; every query
  built here starts from \<open>Model.find()\<close>, which has no conditions.)
\<close>

definition find' :: "(string \<times> json) list \<Rightarrow> mquery \<Rightarrow> mquery" where
  "find' conds q =
     q\<lparr>q_conditions := foldl (\<lambda>acc kv. AList.update (fst kv) (snd kv) acc) (q_conditions q) conds\<rparr>"

text \<open>
  What the database does with a query is not code of the repository. Its
  field-level part is a parameter: \<open>field_matches d f c\<close> says whether document
  \<open>d\<close> satisfies condition \<open>c\<close> (a value to equal, or an operator object such
  as \<open>{$gte: v}\<close> or \<open>{$regex: k, $options: 'i'}\<close>) on field \<open>f\<close>;
  \<open>sort_by\<close> orders documents by a sort string and \<open>select_fields\<close> projects
  a document. A condition object holds when each of its keys holds, \<open>$and\<close>
  when every member of its array holds and \<open>$or\<close> when one does.
\<close>

record 'd mongo =
  field_matches :: "'d \<Rightarrow> string \<Rightarrow> json \<Rightarrow> bool"
  sort_by :: "string \<Rightarrow> 'd list \<Rightarrow> 'd list"
  select_fields :: "string \<Rightarrow> 'd \<Rightarrow> 'd"

fun holds :: "('d \<Rightarrow> string \<Rightarrow> json \<Rightarrow> bool) \<Rightarrow> 'd \<Rightarrow> json \<Rightarrow> bool" where
  "holds leaf d (JObj kvs) =
     list_all (\<lambda>kv.
        if fst kv = ''$and''
        then (case snd kv of JArr cs \<Rightarrow> list_all (holds leaf d) cs | _ \<Rightarrow> False)
        else if fst kv = ''$or''
        then (case snd kv of JArr cs \<Rightarrow> list_ex (holds leaf d) cs | _ \<Rightarrow> False)
        else leaf d (fst kv) (snd kv)) kvs"
| "holds leaf d (JStr s) = False"
| "holds leaf d (JArr xs) = False"

text \<open>
  Awaiting the query: match, sort, skip, limit, project. The server rejects a
  negative skip; a limit of zero means no limit and a negative limit counts as
  its absolute value.
\<close>

definition exec :: "'d mongo \<Rightarrow> 'd list \<Rightarrow> mquery \<Rightarrow> error + 'd list" where
  "exec db coll q =
     (let matched = filter (\<lambda>d. holds (field_matches db) d (JObj (q_conditions q))) coll;
          sorted = (case q_sort q of None \<Rightarrow> matched | Some s \<Rightarrow> sort_by db s matched);
          limited = (\<lambda>xs. case q_limit q of
                            None \<Rightarrow> xs
                          | Some l \<Rightarrow> if l = 0 then xs else take (nat \<bar>l\<bar>) xs);
          projected = (\<lambda>xs. case q_select q of None \<Rightarrow> xs | Some f \<Rightarrow> map (select_fields db f) xs)
      in case q_skip q of
           None \<Rightarrow> Inr (projected (limited sorted))
         | Some k \<Rightarrow>
             if k < 0 then Inl (MongoServerError ''Skip value must be non-negative'')
             else Inr (projected (limited (drop (nat k) sorted))))"

subsection \<open>utils/apiFeatures.js\<close>

record apiFeatures =
  query :: mquery
  queryString :: "(string \<times> json) list"
  searchConditions :: "(string \<times> json) list"
  filterConditions :: "(string \<times> json) list"

text \<open>The constructor.\<close>

definition APIFeatures :: "mquery \<Rightarrow> (string \<times> json) list \<Rightarrow> apiFeatures" where
  "APIFeatures q qs = \<lparr> query = q, queryString = qs, searchConditions = [], filterConditions = [] \<rparr>"

definition search :: "string list \<Rightarrow> apiFeatures \<Rightarrow> apiFeatures" where
  "search searchFields f =
     (case map_of (queryString f) ''keyword'' of
        None \<Rightarrow> f
      | Some keyword \<Rightarrow>
          if jsTruthy (Some keyword)
          then f\<lparr>searchConditions :=
                   [(''$or'', JArr (map (\<lambda>field. JObj [(field, JObj [(''$regex'', keyword),
                                                                       (''$options'', JStr ''i'')])])
                                      searchFields))]\<rparr>
          else f)"

definition excludedFields :: "string list" where
  "excludedFields = [''page'', ''sort'', ''limit'', ''fields'', ''keyword'']"

text \<open>
  \<open>filter()\<close> stores the rewritten parameters in \<open>filterConditions\<close>; it does
  not touch the query. The rewriting only inserts \<open>$\<close> characters inside
  strings, so \<open>JSON.parse\<close> cannot throw and the \<open>catch\<close> branch is never taken.
\<close>

definition filter' :: "apiFeatures \<Rightarrow> apiFeatures" where
  "filter' f =
     (let queryObj = filter (\<lambda>kv. fst kv \<notin> set excludedFields) (queryString f) in
      f\<lparr>filterConditions := (case mongoOps (JObj queryObj) of JObj kvs \<Rightarrow> kvs | _ \<Rightarrow> [])\<rparr>)"

definition applyFind :: "apiFeatures \<Rightarrow> apiFeatures" where
  "applyFind f =
     (let conditionsArray =
            (if searchConditions f \<noteq> [] then [JObj (searchConditions f)] else []) @
            (if filterConditions f \<noteq> [] then [JObj (filterConditions f)] else []);
          finalQueryConditions =
            (if length conditionsArray > 1 then [(''$and'', JArr conditionsArray)]
             else (case conditionsArray of [JObj c] \<Rightarrow> c | _ \<Rightarrow> []))
      in f\<lparr>query := find' finalQueryConditions (query f)\<rparr>)"

text \<open>
  \<open>sort()\<close> and \<open>limitFields()\<close> call \<open>split\<close> on the parameter, which only a
  string has: a repeated parameter (an array) or a nested one (an object) throws.
\<close>

definition commasToSpaces :: "string \<Rightarrow> string" where
  "commasToSpaces s = map (\<lambda>c. if c = CHR '','' then CHR '' '' else c) s"

definition sort' :: "apiFeatures \<Rightarrow> error + apiFeatures" where
  "sort' f =
     (case map_of (queryString f) ''sort'' of
        None \<Rightarrow> Inr (f\<lparr>query := (query f)\<lparr>q_sort := Some ''-createdAt''\<rparr>\<rparr>)
      | Some (JStr s) \<Rightarrow>
          if s = [] then Inr (f\<lparr>query := (query f)\<lparr>q_sort := Some ''-createdAt''\<rparr>\<rparr>)
          else Inr (f\<lparr>query := (query f)\<lparr>q_sort := Some (commasToSpaces s)\<rparr>\<rparr>)
      | Some _ \<Rightarrow> Inl (TypeError ''this.queryString.sort.split is not a function''))"

definition limitFields :: "apiFeatures \<Rightarrow> error + apiFeatures" where
  "limitFields f =
     (case map_of (queryString f) ''fields'' of
        None \<Rightarrow> Inr (f\<lparr>query := (query f)\<lparr>q_select := Some ''-__v''\<rparr>\<rparr>)
      | Some (JStr s) \<Rightarrow>
          if s = [] then Inr (f\<lparr>query := (query f)\<lparr>q_select := Some ''-__v''\<rparr>\<rparr>)
          else Inr (f\<lparr>query := (query f)\<lparr>q_select := Some (commasToSpaces s)\<rparr>\<rparr>)
      | Some _ \<Rightarrow> Inl (TypeError ''this.queryString.fields.split is not a function''))"

definition paginate :: "apiFeatures \<Rightarrow> apiFeatures" where
  "paginate f =
     (let page = parseIntOr (map_of (queryString f) ''page'') 1;
          limit = parseIntOr (map_of (queryString f) ''limit'') 25;
          skip = (page - 1) * limit
      in f\<lparr>query := (query f)\<lparr>q_skip := Some skip, q_limit := Some limit\<rparr>\<rparr>)"

subsection \<open>services/medicineService.js\<close>

record 'd listResult =
  count :: nat
  data :: "'d list"

text \<open>
  \<open>getMedicines(queryParams)\<close>:
  \<open>new APIFeatures(Medicine.find(), queryParams).filter().sort().limitFields().paginate()\<close>,
  then the query is awaited. \<open>applyFind()\<close> is not part of the chain.
\<close>

definition getMedicines ::
  "medicine mongo \<Rightarrow> (string \<times> json) list \<Rightarrow> shop \<Rightarrow> error + medicine listResult" where
  "getMedicines db queryParams st =
     (case sort' (filter' (APIFeatures Model_find queryParams)) of
        Inl e \<Rightarrow> Inl e
      | Inr f1 \<Rightarrow>
          (case limitFields f1 of
             Inl e \<Rightarrow> Inl e
           | Inr f2 \<Rightarrow>
               (case exec db (medicines st) (query (paginate f2)) of
                  Inl e \<Rightarrow> Inl e
                | Inr found \<Rightarrow> Inr \<lparr> count = length found, data = found \<rparr>)))"

text \<open>
  The body of a medicine update: the paths it sets. The update validators of
  \<open>MedicineSchema\<close> run on those paths, and the unique index on \<open>name\<close> is
  checked when the name is set.
\<close>

record medicineUpdate =
  mu_name :: "string option"
  mu_description :: "string option"
  mu_price :: "int option"
  mu_stock :: "int option"
  mu_category :: "string option"
  mu_imageUrl :: "string list option"
  mu_manufacturer :: "string option"
  mu_expirationDate :: "int option"
  mu_user :: "objectId option"

definition categoryEnum :: "string list" where
  "categoryEnum = [''Pain Relief'', ''Antibiotics'', ''Vitamins'', ''Cough & Cold'',
                   ''Digestive Health'', ''Skin Care'', ''First Aid'', ''Other'']"

definition validateMedicineUpdate :: "medicineUpdate \<Rightarrow> string list" where
  "validateMedicineUpdate u =
     (case mu_name u of
        None \<Rightarrow> []
      | Some n \<Rightarrow>
          if n = [] then [''Please add a medicine name'']
          else if length n > 100 then [''Medicine name can not be more than 100 characters'']
          else []) @
     (case mu_description u of
        None \<Rightarrow> []
      | Some t \<Rightarrow>
          if t = [] then [''Please add a description'']
          else if length t > 500 then [''Description can not be more than 500 characters'']
          else []) @
     (case mu_price u of
        None \<Rightarrow> []
      | Some v \<Rightarrow> if v < 0 then [''Price cannot be negative''] else []) @
     (case mu_stock u of
        None \<Rightarrow> []
      | Some v \<Rightarrow> if v < 0 then [''Stock cannot be negative''] else []) @
     (case mu_category u of
        None \<Rightarrow> []
      | Some c \<Rightarrow> if c \<in> set categoryEnum then [] else [''category: not a valid enum value'']) @
     (case mu_manufacturer u of
        None \<Rightarrow> []
      | Some t \<Rightarrow>
          if length t > 100 then [''Manufacturer name can not be more than 100 characters'']
          else [])"

definition applyMedicineUpdate :: "medicineUpdate \<Rightarrow> medicine \<Rightarrow> medicine" where
  "applyMedicineUpdate u m =
     m\<lparr> m_name := (case mu_name u of None \<Rightarrow> m_name m | Some v \<Rightarrow> v),
        m_description := (case mu_description u of None \<Rightarrow> m_description m | Some v \<Rightarrow> v),
        m_price := (case mu_price u of None \<Rightarrow> m_price m | Some v \<Rightarrow> v),
        m_stock := (case mu_stock u of None \<Rightarrow> m_stock m | Some v \<Rightarrow> v),
        m_category := (case mu_category u of None \<Rightarrow> m_category m | Some v \<Rightarrow> v),
        m_imageUrl := (case mu_imageUrl u of None \<Rightarrow> m_imageUrl m | Some v \<Rightarrow> v),
        m_manufacturer := (case mu_manufacturer u of None \<Rightarrow> m_manufacturer m | Some v \<Rightarrow> Some v),
        m_expirationDate :=
          (case mu_expirationDate u of None \<Rightarrow> m_expirationDate m | Some v \<Rightarrow> Some v),
        m_user := (case mu_user u of None \<Rightarrow> m_user m | Some v \<Rightarrow> Some v) \<rparr>"

definition Medicine_findByIdAndUpdate ::
  "objectId \<Rightarrow> medicineUpdate \<Rightarrow> shop \<Rightarrow> (error + medicine option) \<times> shop" where
  "Medicine_findByIdAndUpdate i u st =
     (if validateMedicineUpdate u \<noteq> [] then (Inl (ValidationError (validateMedicineUpdate u)), st)
      else (case findMedicine i (medicines st) of
              None \<Rightarrow> (Inr None, st)
            | Some m \<Rightarrow>
                let m' = applyMedicineUpdate u m in
                if mu_name u \<noteq> None \<and>
                   list_ex (\<lambda>b. m_id b \<noteq> i \<and> m_name b = m_name m') (medicines st)
                then (Inl (DuplicateKey ''name_1''), st)
                else (Inr (Some m'),
                      st\<lparr>medicines := updateFirst (\<lambda>b. m_id b = i) (\<lambda>_. m') (medicines st)\<rparr>)))"

text \<open>
  \<open>updateMedicine(id, updateData, authUser)\<close> and \<open>deleteMedicine(id, authUser)\<close>.
  The authorization test is
  \<open>medicine.user.toString() !== authUser.id && authUser.role !== 'admin'\<close>:
  its left operand is evaluated first, and reading \<open>toString\<close> of a missing
  \<open>user\<close> throws a TypeError.
\<close>

definition updateMedicine ::
  "objectId \<Rightarrow> medicineUpdate \<Rightarrow> authUser \<Rightarrow> shop \<Rightarrow> (error + medicine option) \<times> shop" where
  "updateMedicine i updateData authUser st =
     (case findMedicine i (medicines st) of
        None \<Rightarrow> (Inl (ErrorResponse (''Medicine not found with id of '' @ i) 404), st)
      | Some medicine \<Rightarrow>
          (case m_user medicine of
             None \<Rightarrow>
               (Inl (TypeError ''Cannot read properties of undefined (reading toString)''), st)
           | Some owner \<Rightarrow>
               if owner \<noteq> au_id authUser \<and> au_role authUser \<noteq> ''admin''
               then (Inl (ErrorResponse (''User '' @ au_id authUser @
                            '' is not authorized to update this medicine'') 401), st)
               else Medicine_findByIdAndUpdate i updateData st))"

definition deleteMedicine :: "objectId \<Rightarrow> authUser \<Rightarrow> shop \<Rightarrow> (error + unit) \<times> shop" where
  "deleteMedicine i authUser st =
     (case findMedicine i (medicines st) of
        None \<Rightarrow> (Inl (ErrorResponse (''Medicine not found with id of '' @ i) 404), st)
      | Some medicine \<Rightarrow>
          (case m_user medicine of
             None \<Rightarrow>
               (Inl (TypeError ''Cannot read properties of undefined (reading toString)''), st)
           | Some owner \<Rightarrow>
               if owner \<noteq> au_id authUser \<and> au_role authUser \<noteq> ''admin''
               then (Inl (ErrorResponse (''User '' @ au_id authUser @
                            '' is not authorized to delete this medicine'') 401), st)
               else (Inr (), st\<lparr>medicines := removeFirst (\<lambda>b. m_id b = i) (medicines st)\<rparr>)))"

section \<open>Appointments\<close>

subsection \<open>models/Appointment.js, models/Doctor.js, models/Lab.js\<close>

text \<open>
  The request body delivers a reference to another document, like the
  appointment \<open>type\<close>, as a string or not at all (\<open>null\<close>, \<open>undefined\<close>).
  Such a value is truthy when it is present and not the empty string.
\<close>

definition truthy :: "string option \<Rightarrow> bool" where
  "truthy v = (case v of None \<Rightarrow> False | Some s \<Rightarrow> s \<noteq> [])"

text \<open>
  Mongoose casts a string to an ObjectId when it is made of 24 hexadecimal
  digits; any other string, the empty one included, is a cast error.
\<close>

definition hexChar :: "char \<Rightarrow> bool" where
  "hexChar c = (c \<in> set ''0123456789abcdefABCDEF'')"

definition isObjectId :: "string \<Rightarrow> bool" where
  "isObjectId s = (length s = 24 \<and> list_all hexChar s)"

record location =
  loc_type :: string
  loc_coordinates :: "real list"
  loc_address :: string

record appointment =
  a_id :: objectId
  a_user :: objectId
  a_doctor :: "objectId option"
  a_appointmentDate :: int
  a_appointmentTime :: string
  a_type :: string
  a_status :: string
  a_reason :: "string option"
  a_lab :: "objectId option"
  a_createdAt :: int
  a_location :: location

text \<open>
  Of a doctor and of a lab the records keep the fields the appointment service
  reads (\<open>_id\<close>, \<open>user\<close>, the address and \<open>location.coordinates\<close>) and the
  main descriptive ones.
\<close>

record doctor =
  d_id :: objectId
  d_user :: objectId
  d_name :: string
  d_specialization :: string
  d_experience :: int
  d_qualifications :: "string list"
  d_clinicAddress :: "string option"
  d_coordinates :: "real list option"
  d_phone :: string
  d_email :: string

record lab =
  l_id :: objectId
  l_name :: string
  l_address :: string
  l_phone :: string
  l_services :: "string list"
  l_coordinates :: "real list option"
  l_user :: "objectId option"

record clinic =
  appointments :: "appointment list"
  doctors :: "doctor list"
  labs :: "lab list"

text \<open>
  The body of a creation request. \<open>user\<close> is not a field here:
  \<open>createAppointment\<close> overwrites it with the requester before anything reads it.
\<close>

record appointmentData =
  ad_doctor :: "objectId option"
  ad_lab :: "objectId option"
  ad_appointmentDate :: "int option"
  ad_appointmentTime :: "string option"
  ad_type :: "string option"
  ad_status :: "string option"
  ad_reason :: "string option"
  ad_createdAt :: "int option"
  ad_location :: "location option"

text \<open>The body of an update request: the paths it sets.\<close>

record appointmentUpdate =
  up_user :: "objectId option"
  up_doctor :: "objectId option"
  up_appointmentDate :: "int option"
  up_appointmentTime :: "string option"
  up_type :: "string option"
  up_status :: "string option"
  up_reason :: "string option"
  up_lab :: "objectId option"
  up_createdAt :: "int option"
  up_location :: "location option"

definition findAppointment :: "objectId \<Rightarrow> appointment list \<Rightarrow> appointment option" where
  "findAppointment i xs = find (\<lambda>a. a_id a = i) xs"

definition findDoctor :: "objectId \<Rightarrow> doctor list \<Rightarrow> doctor option" where
  "findDoctor i xs = find (\<lambda>d. d_id d = i) xs"

definition findLab :: "objectId \<Rightarrow> lab list \<Rightarrow> lab option" where
  "findLab i xs = find (\<lambda>l. l_id l = i) xs"

definition typeEnum :: "string list" where
  "typeEnum = [''online'', ''offline'', ''lab'']"

definition statusEnum :: "string list" where
  "statusEnum = [''pending'', ''confirmed'', ''cancelled'', ''completed'']"

definition validateLocation :: "location option \<Rightarrow> string list" where
  "validateLocation v =
     (case v of
        None \<Rightarrow> []
      | Some l \<Rightarrow>
          (if loc_type l = ''Point'' then [] else [''location.type: not a valid enum value'']) @
          (if length (loc_address l) > 200
           then [''Address can not be more than 200 characters''] else []))"

text \<open>
  The validators of \<open>AppointmentSchema\<close> on a document about to be created,
  in the order of the schema; the result lists the messages of those that fail.
  \<open>doctor\<close> is required unless the type is "lab", \<open>lab\<close> is required when
  the type is "lab" (both default to \<open>null\<close>); \<open>type\<close> defaults to "offline".
  A reference that is present must cast to an ObjectId; a failed cast is
  reported with the failed validators.
\<close>

definition validateAppointment :: "appointmentData \<Rightarrow> string list" where
  "validateAppointment d =
     (let type = (case ad_type d of None \<Rightarrow> ''offline'' | Some t \<Rightarrow> t) in
      (case ad_doctor d of
         None \<Rightarrow> if type \<noteq> ''lab'' then [''Path doctor is required.''] else []
       | Some i \<Rightarrow> if isObjectId i then [] else [''Cast to ObjectId failed at path doctor'']) @
      (if ad_appointmentDate d = None then [''Please specify the appointment date''] else []) @
      (if truthy (ad_appointmentTime d) then [] else [''Please specify the appointment time'']) @
      (if type \<in> set typeEnum then [] else [''type: not a valid enum value'']) @
      (case ad_status d of
         None \<Rightarrow> []
       | Some s \<Rightarrow> if s \<in> set statusEnum then [] else [''status: not a valid enum value'']) @
      (case ad_reason d of
         None \<Rightarrow> []
       | Some r \<Rightarrow> if length r > 500 then [''Reason can not be more than 500 characters''] else []) @
      (case ad_lab d of
         None \<Rightarrow> if type = ''lab'' then [''Path lab is required.''] else []
       | Some i \<Rightarrow> if isObjectId i then [] else [''Cast to ObjectId failed at path lab'']) @
      validateLocation (ad_location d))"

text \<open>The document Mongoose builds from the data, with the schema's defaults.\<close>

definition appointmentDocument :: "objectId \<Rightarrow> int \<Rightarrow> objectId \<Rightarrow> appointmentData \<Rightarrow> appointment" where
  "appointmentDocument newId now userId d =
     \<lparr> a_id = newId, a_user = userId, a_doctor = ad_doctor d,
       a_appointmentDate = (case ad_appointmentDate d of None \<Rightarrow> 0 | Some t \<Rightarrow> t),
       a_appointmentTime = (case ad_appointmentTime d of None \<Rightarrow> [] | Some t \<Rightarrow> t),
       a_type = (case ad_type d of None \<Rightarrow> ''offline'' | Some t \<Rightarrow> t),
       a_status = (case ad_status d of None \<Rightarrow> ''pending'' | Some s \<Rightarrow> s),
       a_reason = ad_reason d, a_lab = ad_lab d,
       a_createdAt = (case ad_createdAt d of None \<Rightarrow> now | Some t \<Rightarrow> t),
       a_location = (case ad_location d of
                       None \<Rightarrow> \<lparr> loc_type = ''Point'', loc_coordinates = [0, 0], loc_address = ''N/A'' \<rparr>
                     | Some l \<Rightarrow> l) \<rparr>"

text \<open>
  The unique index \<open>{ user, doctor, appointmentDate, appointmentTime }\<close>.
\<close>

definition sameSlot :: "appointment \<Rightarrow> appointment \<Rightarrow> bool" where
  "sameSlot a b =
     (a_user a = a_user b \<and> a_doctor a = a_doctor b \<and>
      a_appointmentDate a = a_appointmentDate b \<and> a_appointmentTime a = a_appointmentTime b)"

text \<open>\<open>Appointment.create(appointmentData)\<close>: validate, then insert under the unique index.\<close>

definition Appointment_create ::
  "objectId \<Rightarrow> int \<Rightarrow> objectId \<Rightarrow> appointmentData \<Rightarrow> clinic \<Rightarrow> (error + appointment) \<times> clinic" where
  "Appointment_create newId now userId d st =
     (if validateAppointment d \<noteq> [] then (Inl (ValidationError (validateAppointment d)), st)
      else let doc = appointmentDocument newId now userId d in
           if list_ex (sameSlot doc) (appointments st)
           then (Inl (DuplicateKey ''user_1_doctor_1_appointmentDate_1_appointmentTime_1''), st)
           else (Inr doc, st\<lparr>appointments := appointments st @ [doc]\<rparr>))"

subsection \<open>services/appointmentService.js\<close>

text \<open>
  The two branches of \<open>createAppointment\<close> after the exclusivity tests.
  \<open>findById\<close> casts the identifier first and throws when the cast fails.
\<close>

definition doctorBranch ::
  "objectId \<Rightarrow> int \<Rightarrow> appointmentData \<Rightarrow> objectId \<Rightarrow> clinic \<Rightarrow> (error + appointment) \<times> clinic" where
  "doctorBranch newId now appointmentData userId st =
     (let data1 = appointmentData\<lparr>ad_type :=
                    (if truthy (ad_type appointmentData) then ad_type appointmentData
                     else Some ''offline'')\<rparr> in
      case ad_doctor appointmentData of
        None \<Rightarrow> (Inl (ErrorResponse ''Doctor not found with id undefined'' 404), st)
      | Some doctorId \<Rightarrow>
          if \<not> isObjectId doctorId
          then (Inl (CastError ''Cast to ObjectId failed at path _id for model Doctor''), st)
          else (case findDoctor doctorId (doctors st) of
                  None \<Rightarrow> (Inl (ErrorResponse (''Doctor not found with id '' @ doctorId) 404), st)
                | Some doctor \<Rightarrow>
                    let data2 =
                          (case d_coordinates doctor of
                             None \<Rightarrow> data1
                           | Some coordinates \<Rightarrow>
                               (case d_clinicAddress doctor of
                                  None \<Rightarrow> data1
                                | Some address \<Rightarrow>
                                    if address = [] then data1
                                    else data1\<lparr>ad_location :=
                                           Some \<lparr> loc_type = ''Point'', loc_coordinates = coordinates,
                                                  loc_address = address \<rparr>\<rparr>))
                    in Appointment_create newId now userId data2 st))"

definition labBranch ::
  "objectId \<Rightarrow> int \<Rightarrow> appointmentData \<Rightarrow> objectId \<Rightarrow> clinic \<Rightarrow> (error + appointment) \<times> clinic" where
  "labBranch newId now appointmentData userId st =
     (let data1 = appointmentData\<lparr>ad_type := Some ''lab''\<rparr> in
      case ad_lab appointmentData of
        None \<Rightarrow> (Inl (ErrorResponse ''Lab not found with id undefined'' 404), st)
      | Some labId \<Rightarrow>
          if \<not> isObjectId labId
          then (Inl (CastError ''Cast to ObjectId failed at path _id for model Lab''), st)
          else (case findLab labId (labs st) of
                  None \<Rightarrow> (Inl (ErrorResponse (''Lab not found with id '' @ labId) 404), st)
                | Some lab \<Rightarrow>
                    let data2 =
                          (case l_coordinates lab of
                             None \<Rightarrow> data1
                           | Some coordinates \<Rightarrow>
                               if l_address lab = [] then data1
                               else data1\<lparr>ad_location :=
                                      Some \<lparr> loc_type = ''Point'', loc_coordinates = coordinates,
                                             loc_address = l_address lab \<rparr>\<rparr>)
                    in Appointment_create newId now userId data2 st))"

text \<open>
  \<open>createAppointment(appointmentData, userId)\<close>. The tests on
  \<open>appointmentData.doctor\<close> and \<open>appointmentData.lab\<close> are tests of
  truthiness: an empty string counts as not supplied there, but it is still
  part of the data handed to \<open>Appointment.create\<close>.
\<close>

definition createAppointment ::
  "objectId \<Rightarrow> int \<Rightarrow> appointmentData \<Rightarrow> objectId \<Rightarrow> clinic \<Rightarrow> (error + appointment) \<times> clinic" where
  "createAppointment newId now appointmentData userId st =
     (if truthy (ad_doctor appointmentData) \<and> truthy (ad_lab appointmentData)
      then (Inl (ErrorResponse
                  ''An appointment cannot be associated with both a doctor and a lab.'' 400), st)
      else if \<not> truthy (ad_doctor appointmentData) \<and> \<not> truthy (ad_lab appointmentData)
      then (Inl (ErrorResponse
                  ''An appointment must be associated with either a doctor or a lab.'' 400), st)
      else if truthy (ad_doctor appointmentData)
      then doctorBranch newId now appointmentData userId st
      else if truthy (ad_lab appointmentData)
      then labBranch newId now appointmentData userId st
      else Appointment_create newId now userId appointmentData st)"

text \<open>
  \<open>Appointment.findByIdAndUpdate(id, update, { new: true, runValidators: true })\<close>.
  The update validators run on the paths the update sets; a path the update
  leaves \<open>undefined\<close> is not written. The unique index is checked when the
  update touches one of its fields. The result is the document after the
  update, or \<open>null\<close> when no document has the identifier.
\<close>

definition validateUpdate :: "appointmentUpdate \<Rightarrow> string list" where
  "validateUpdate u =
     (case up_appointmentTime u of
        None \<Rightarrow> []
      | Some t \<Rightarrow> if t = [] then [''Please specify the appointment time''] else []) @
     (case up_type u of
        None \<Rightarrow> []
      | Some t \<Rightarrow> if t \<in> set typeEnum then [] else [''type: not a valid enum value'']) @
     (case up_status u of
        None \<Rightarrow> []
      | Some s \<Rightarrow> if s \<in> set statusEnum then [] else [''status: not a valid enum value'']) @
     (case up_reason u of
        None \<Rightarrow> []
      | Some r \<Rightarrow> if length r > 500 then [''Reason can not be more than 500 characters''] else []) @
     validateLocation (up_location u)"

definition applyUpdate :: "appointmentUpdate \<Rightarrow> appointment \<Rightarrow> appointment" where
  "applyUpdate u a =
     a\<lparr> a_user := (case up_user u of None \<Rightarrow> a_user a | Some v \<Rightarrow> v),
        a_doctor := (case up_doctor u of None \<Rightarrow> a_doctor a | Some v \<Rightarrow> Some v),
        a_appointmentDate := (case up_appointmentDate u of None \<Rightarrow> a_appointmentDate a | Some v \<Rightarrow> v),
        a_appointmentTime := (case up_appointmentTime u of None \<Rightarrow> a_appointmentTime a | Some v \<Rightarrow> v),
        a_type := (case up_type u of None \<Rightarrow> a_type a | Some v \<Rightarrow> v),
        a_status := (case up_status u of None \<Rightarrow> a_status a | Some v \<Rightarrow> v),
        a_reason := (case up_reason u of None \<Rightarrow> a_reason a | Some v \<Rightarrow> Some v),
        a_lab := (case up_lab u of None \<Rightarrow> a_lab a | Some v \<Rightarrow> Some v),
        a_createdAt := (case up_createdAt u of None \<Rightarrow> a_createdAt a | Some v \<Rightarrow> v),
        a_location := (case up_location u of None \<Rightarrow> a_location a | Some v \<Rightarrow> v) \<rparr>"

definition touchesIndex :: "appointmentUpdate \<Rightarrow> bool" where
  "touchesIndex u =
     (up_user u \<noteq> None \<or> up_doctor u \<noteq> None \<or>
      up_appointmentDate u \<noteq> None \<or> up_appointmentTime u \<noteq> None)"

definition Appointment_findByIdAndUpdate ::
  "objectId \<Rightarrow> appointmentUpdate \<Rightarrow> clinic \<Rightarrow> (error + appointment option) \<times> clinic" where
  "Appointment_findByIdAndUpdate i u st =
     (if validateUpdate u \<noteq> [] then (Inl (ValidationError (validateUpdate u)), st)
      else (case findAppointment i (appointments st) of
              None \<Rightarrow> (Inr None, st)
            | Some a \<Rightarrow>
                let a' = applyUpdate u a in
                if touchesIndex u \<and>
                   list_ex (\<lambda>b. a_id b \<noteq> i \<and> sameSlot a' b) (appointments st)
                then (Inl (DuplicateKey ''user_1_doctor_1_appointmentDate_1_appointmentTime_1''), st)
                else (Inr (Some a'),
                      st\<lparr>appointments := updateFirst (\<lambda>b. a_id b = i) (\<lambda>_. a') (appointments st)\<rparr>)))"

definition noUpdate :: appointmentUpdate where
  "noUpdate =
     \<lparr> up_user = None, up_doctor = None, up_appointmentDate = None, up_appointmentTime = None,
       up_type = None, up_status = None, up_reason = None, up_lab = None, up_createdAt = None,
       up_location = None \<rparr>"

text \<open>\<open>updateAppointment(id, updateData, authUser)\<close>.\<close>

definition updateAppointment ::
  "objectId \<Rightarrow> appointmentUpdate \<Rightarrow> authUser \<Rightarrow> clinic \<Rightarrow> (error + appointment option) \<times> clinic" where
  "updateAppointment i updateData authUser st =
     (case findAppointment i (appointments st) of
        None \<Rightarrow> (Inl (ErrorResponse (''Appointment not found with id of '' @ i) 404), st)
      | Some appointment \<Rightarrow>
          if au_role authUser = ''admin'' then Appointment_findByIdAndUpdate i updateData st
          else if au_role authUser = ''doctor'' then
            (case find (\<lambda>d. d_user d = au_id authUser) (doctors st) of
               None \<Rightarrow>
                 (Inl (ErrorResponse (''Doctor '' @ au_id authUser @
                         '' is not authorized to update this appointment'') 401), st)
             | Some doctorProfile \<Rightarrow>
                 if a_doctor appointment \<noteq> Some (d_id doctorProfile)
                 then (Inl (ErrorResponse (''Doctor '' @ au_id authUser @
                              '' is not authorized to update this appointment'') 401), st)
                 else Appointment_findByIdAndUpdate i
                        (noUpdate\<lparr>up_status := up_status updateData,
                                   up_reason := up_reason updateData\<rparr>) st)
          else if au_role authUser = ''user'' then
            (if a_user appointment \<noteq> au_id authUser \<or> up_status updateData \<noteq> Some ''cancelled''
             then (Inl (ErrorResponse (''User '' @ au_id authUser @
                     '' is not authorized to update this appointment or perform this action'') 401), st)
             else Appointment_findByIdAndUpdate i (noUpdate\<lparr>up_status := Some ''cancelled''\<rparr>) st)
          else (Inl (ErrorResponse (''User role '' @ au_role authUser @
                       '' is not authorized to update appointments'') 403), st))"

section \<open>Users and password reset\<close>

subsection \<open>models/User.js\<close>

record user =
  u_id :: objectId
  u_name :: string
  u_email :: string
  u_password :: string
  u_role :: string
  u_phone :: "string option"
  u_address :: "string option"
  u_createdAt :: int
  u_imageUrl :: string
  u_resetPasswordToken :: "string option"
  u_resetPasswordExpire :: "int option"

text \<open>
  The collaborators that are not code of the repository: the SHA-256 digest in
  hexadecimal (\<open>crypto.createHash('sha256').update(s).digest('hex')\<close>), the
  salted bcrypt hash of the pre-save hook, and the signed JWT of a user id.
\<close>

record crypto =
  sha256hex :: "string \<Rightarrow> string"
  bcrypt :: "string \<Rightarrow> string"
  jwtSign :: "objectId \<Rightarrow> string"

text \<open>\<open>buffer.toString('hex')\<close>: two lower-case hexadecimal digits for each byte.\<close>

definition hexDigit :: "nat \<Rightarrow> char" where
  "hexDigit n = ''0123456789abcdef'' ! n"

definition toHex :: "8 word list \<Rightarrow> string" where
  "toHex bytes = concat (map (\<lambda>b. [hexDigit (unat b div 16), hexDigit (unat b mod 16)]) bytes)"

text \<open>
  \<open>user.getResetPasswordToken()\<close>; \<open>randomBytes\<close> is the result of
  \<open>crypto.randomBytes(20)\<close> and \<open>now\<close> that of \<open>Date.now()\<close>. It returns the
  raw token and stores its digest and the expiry, ten minutes ahead, in the document.
\<close>

definition getResetPasswordToken :: "crypto \<Rightarrow> 8 word list \<Rightarrow> int \<Rightarrow> user \<Rightarrow> string \<times> user" where
  "getResetPasswordToken c randomBytes now u =
     (let resetToken = toHex randomBytes in
      (resetToken,
       u\<lparr>u_resetPasswordToken := Some (sha256hex c resetToken),
          u_resetPasswordExpire := Some (now + 10 * 60 * 1000)\<rparr>))"

text \<open>
  \<open>user.save()\<close> writes the document back under its \<open>_id\<close>. The pre-save hook
  hashes the password when the password was modified; \<open>forgotPassword\<close> does
  not modify it (and saves without validation), \<open>resetPassword\<close> does.
\<close>

definition saveUser :: "user \<Rightarrow> user list \<Rightarrow> user list" where
  "saveUser u users = updateFirst (\<lambda>x. u_id x = u_id u) (\<lambda>_. u) users"


subsection \<open>controllers/authController.js\<close>

text \<open>
  What a handler does with the response: \<open>res.status(n).json({success: true, data})\<close>,
  the token response of \<open>sendTokenResponse\<close> (status, token, and the user's id,
  name, email and role), or \<open>next(err)\<close>.
\<close>

datatype response =
    JsonData nat string
  | JsonToken nat string objectId string string string
  | Next error

record email =
  e_email :: string
  e_subject :: string
  e_message :: string

definition resetMail :: "string \<Rightarrow> string \<Rightarrow> user \<Rightarrow> string \<Rightarrow> email" where
  "resetMail protocol host u resetToken =
     \<lparr> e_email = u_email u, e_subject = ''Password Reset Token'',
       e_message = ''You are receiving this email because you (or someone else) has requested the reset of a password. Please make a PUT request to: '' @
                   [CHR 0x0A, CHR 0x0A, CHR '' ''] @
                   protocol @ ''://'' @ host @ ''/api/v1/auth/resetpassword/'' @ resetToken \<rparr>"

text \<open>
  \<open>forgotPassword(req, res, next)\<close>. \<open>sendEmail\<close> is the mail utility: it
  delivers the message or throws. The result is the response, the users
  collection after the request, and the messages delivered.
\<close>

definition forgotPassword ::
  "crypto \<Rightarrow> (email \<Rightarrow> bool) \<Rightarrow> 8 word list \<Rightarrow> int \<Rightarrow> string \<Rightarrow> string \<Rightarrow> string \<Rightarrow> user list \<Rightarrow>
   response \<times> user list \<times> email list" where
  "forgotPassword c sendEmail randomBytes now protocol host emailAddress users =
     (case find (\<lambda>u. u_email u = emailAddress) users of
        None \<Rightarrow> (JsonData 200 ''Email sent'', users, [])
      | Some u \<Rightarrow>
          (case getResetPasswordToken c randomBytes now u of
             (resetToken, u1) \<Rightarrow>
               let users1 = saveUser u1 users;
                   mail = resetMail protocol host u1 resetToken
               in if sendEmail mail then (JsonData 200 ''Email sent'', users1, [mail])
                  else (Next (ErrorResponse ''Email could not be sent'' 500),
                        saveUser (u1\<lparr>u_resetPasswordToken := None, u_resetPasswordExpire := None\<rparr>)
                          users1, [])))"



section \<open>Sample data\<close>

text \<open>
  The scenario of the specification: a medicine "Paracetamol" at price 5 with a
  given stock, an order for a given quantity of it, and a shop that holds only
  that medicine.
\<close>

definition paracetamol :: "int \<Rightarrow> medicine" where
  "paracetamol s =
     \<lparr> m_id = ''m1'', m_name = ''Paracetamol'', m_description = ''Tablets'', m_price = 5,
       m_stock = s, m_category = ''Pain Relief'', m_imageUrl = [], m_manufacturer = None,
       m_expirationDate = None, m_createdAt = 0, m_user = Some ''admin1'' \<rparr>"

definition paracetamolItem :: "int \<Rightarrow> orderItem" where
  "paracetamolItem q =
     \<lparr> oi_medicine = ''m1'', oi_name = ''Paracetamol'', oi_price = 5, oi_quantity = q \<rparr>"

definition paracetamolOrder :: "int \<Rightarrow> orderData" where
  "paracetamolOrder q =
     \<lparr> od_orderItems = Some [paracetamolItem q], od_shippingAddress = Some ''Srinagar'',
       od_paymentMethod = Some ''COD'', od_taxPrice = Some 0, od_shippingPrice = Some 0,
       od_totalPrice = Some (5 * q) \<rparr>"

definition pharmacy :: "int \<Rightarrow> shop" where
  "pharmacy s = \<lparr> medicines = [paracetamol s], orders = [] \<rparr>"

definition placedOrder :: "bool \<Rightarrow> order" where
  "placedOrder paid =
     (orderDocument ''o1'' (paracetamolOrder 3) [paracetamolItem 3] ''u1'')\<lparr>o_isPaid := paid\<rparr>"

definition orderBook :: "bool \<Rightarrow> shop" where
  "orderBook paid = \<lparr> medicines = [paracetamol 7], orders = [placedOrder paid] \<rparr>"

definition admin :: authUser where
  "admin = \<lparr> au_id = ''admin1'', au_role = ''admin'' \<rparr>"

definition customer :: authUser where
  "customer = \<lparr> au_id = ''u1'', au_role = ''user'' \<rparr>"

text \<open>
  The second scenario of the specification: doctor D at coordinates [74.8, 34.1]
  with clinic address "Clinic X", a lab, and requests to book either.
\<close>

definition drX :: doctor where
  "drX = \<lparr> d_id = ''d1'', d_user = ''du1'', d_name = ''Dr X'', d_specialization = ''General'',
           d_experience = 5, d_qualifications = [''MBBS''], d_clinicAddress = Some ''Clinic X'',
           d_coordinates = Some [74.8, 34.1], d_phone = ''100'', d_email = ''x@clinic.example'' \<rparr>"

definition cityLab :: lab where
  "cityLab = \<lparr> l_id = ''l1'', l_name = ''City Lab'', l_address = ''Lab Road'', l_phone = ''200'',
               l_services = [''Blood Test''], l_coordinates = Some [74.8, 34.0], l_user = None \<rparr>"

definition booking :: "objectId option \<Rightarrow> objectId option \<Rightarrow> string option \<Rightarrow> appointmentData" where
  "booking doc lb ty =
     \<lparr> ad_doctor = doc, ad_lab = lb, ad_appointmentDate = Some 1700000000000,
       ad_appointmentTime = Some ''10:00 AM'', ad_type = ty, ad_status = None,
       ad_reason = Some ''Checkup'', ad_createdAt = None, ad_location = None \<rparr>"

definition doctorD :: objectId where
  "doctorD = ''64b7f0a1c2d3e4f5a6b7c8d1''"

definition labL :: objectId where
  "labL = ''64b7f0a1c2d3e4f5a6b7c8e1''"

definition emptyClinic :: clinic where
  "emptyClinic = \<lparr> appointments = [], doctors = [drX\<lparr>d_id := doctorD\<rparr>],
                   labs = [cityLab\<lparr>l_id := labL\<rparr>] \<rparr>"

definition visit :: appointment where
  "visit = \<lparr> a_id = ''a1'', a_user = ''u1'', a_doctor = Some ''d1'',
             a_appointmentDate = 1700000000000, a_appointmentTime = ''10:00 AM'',
             a_type = ''offline'', a_status = ''pending'', a_reason = Some ''Checkup'',
             a_lab = None, a_createdAt = 0,
             a_location = \<lparr> loc_type = ''Point'', loc_coordinates = [74.8, 34.1],
                             loc_address = ''Clinic X'' \<rparr> \<rparr>"

definition busyClinic :: clinic where
  "busyClinic = \<lparr> appointments = [visit], doctors = [drX], labs = [cityLab] \<rparr>"

definition drXUser :: authUser where
  "drXUser = \<lparr> au_id = ''du1'', au_role = ''doctor'' \<rparr>"

definition wideUpdate :: appointmentUpdate where
  "wideUpdate = noUpdate\<lparr> up_status := Some ''confirmed'', up_reason := Some ''Seen'',
                          up_user := Some ''du1'', up_type := Some ''lab'',
                          up_appointmentDate := Some 0 \<rparr>"

text \<open>
  A database for the scenarios: the text fields of a medicine are compared by
  equality, a \<open>$regex\<close> condition with a literal keyword is a case-insensitive
  substring test, no other condition matches; documents keep their order and
  are returned whole.
\<close>

definition lowerCase :: "string \<Rightarrow> string" where
  "lowerCase s =
     map (\<lambda>c. case map_of (zip ''ABCDEFGHIJKLMNOPQRSTUVWXYZ'' ''abcdefghijklmnopqrstuvwxyz'') c of
                 None \<Rightarrow> c | Some l \<Rightarrow> l) s"

fun isPrefix :: "string \<Rightarrow> string \<Rightarrow> bool" where
  "isPrefix [] ys = True"
| "isPrefix (x # xs) [] = False"
| "isPrefix (x # xs) (y # ys) = (x = y \<and> isPrefix xs ys)"

fun isInfix :: "string \<Rightarrow> string \<Rightarrow> bool" where
  "isInfix xs [] = (xs = [])"
| "isInfix xs (y # ys) = (isPrefix xs (y # ys) \<or> isInfix xs ys)"

definition medicineText :: "medicine \<Rightarrow> string \<Rightarrow> string option" where
  "medicineText m f =
     (if f = ''name'' then Some (m_name m)
      else if f = ''description'' then Some (m_description m)
      else if f = ''category'' then Some (m_category m)
      else None)"

definition medicineField :: "medicine \<Rightarrow> string \<Rightarrow> json \<Rightarrow> bool" where
  "medicineField m f c =
     (case medicineText m f of
        None \<Rightarrow> False
      | Some v \<Rightarrow>
          (case c of
             JStr s \<Rightarrow> v = s
           | JArr xs \<Rightarrow> False
           | JObj kvs \<Rightarrow>
               (case map_of kvs ''$regex'' of
                  Some (JStr k) \<Rightarrow> isInfix (lowerCase k) (lowerCase v)
                | _ \<Rightarrow> False)))"

definition sampleMongo :: "medicine mongo" where
  "sampleMongo = \<lparr> field_matches = medicineField, sort_by = (\<lambda>s xs. xs), select_fields = (\<lambda>s d. d) \<rparr>"

definition paracetamolForte :: medicine where
  "paracetamolForte = (paracetamol 4)\<lparr> m_id := ''m2'', m_name := ''Paracetamol Forte'',
                                         m_category := ''Cough & Cold'' \<rparr>"


text \<open>A registered user, and stand-ins for the cryptographic collaborators.\<close>

definition alice :: user where
  "alice = \<lparr> u_id = ''u1'', u_name = ''Alice'', u_email = ''alice@example.com'',
             u_password = ''$2a$10$stored'', u_role = ''user'', u_phone = None, u_address = None,
             u_createdAt = 0, u_imageUrl = ''https://placehold.co/400x300'',
             u_resetPasswordToken = None, u_resetPasswordExpire = None \<rparr>"

definition sampleCrypto :: crypto where
  "sampleCrypto =
     \<lparr> sha256hex = (\<lambda>s. ''e3b0c44298fc1c149afbf4c8996fb92427ae41e4649b934ca495991b7852b855''),
       bcrypt = (\<lambda>p. ''$2a$10$hashed''), jwtSign = (\<lambda>i. ''jwt.'' @ i) \<rparr>"

definition sampleBytes :: "8 word list" where
  "sampleBytes = replicate 20 0x2a"

section \<open>Properties of the collections\<close>

lemma find_updateFirst_same:
  "find P xs = Some x \<Longrightarrow> P y \<Longrightarrow> find P (updateFirst P (\<lambda>_. y) xs) = Some y"
  by (induction xs) (auto split: if_splits)

lemma find_Some_holds: "find P xs = Some x \<Longrightarrow> P x"
  by (induction xs) (auto split: if_splits)


lemma findOrder_saved:
  "findOrder i os = Some x \<Longrightarrow> o_id x' = i \<Longrightarrow>
   findOrder i (updateFirst (\<lambda>x. o_id x = i) (\<lambda>_. x') os) = Some x'"
  unfolding findOrder_def by (rule find_updateFirst_same)


section \<open>Order fulfilment\<close>








text \<open>
  Claim C9. For a stored order: marking it paid succeeds for an admin on an
  unpaid order (given the changed document passes the Order schema), and then
  the stored order has \<open>isPaid\<close> set, \<open>paidAt\<close> the current time and
  \<open>paymentResult\<close> the supplied payload, nothing else changed; on a paid order
  it throws 400, for a principal that is not admin it throws 403, and in both
  cases the shop is unchanged; so a success implies an admin and an unpaid order.
\<close>

theorem updateOrderToPaid_transition:
  assumes found: "findOrder i (orders st) = Some order"
  shows "(au_role authUser = ''admin'' \<and> \<not> o_isPaid order \<and>
            orderSchema (order\<lparr>o_isPaid := True, o_paidAt := Some now,
                                o_paymentResult := Some paymentResultData\<rparr>) \<longrightarrow>
            (\<exists>st'. updateOrderToPaid orderSchema now i paymentResultData authUser st =
               (Inr (order\<lparr>o_isPaid := True, o_paidAt := Some now,
                            o_paymentResult := Some paymentResultData\<rparr>), st') \<and>
               findOrder i (orders st') =
                 Some (order\<lparr>o_isPaid := True, o_paidAt := Some now,
                              o_paymentResult := Some paymentResultData\<rparr>) \<and>
               medicines st' = medicines st))
       \<and> (o_isPaid order \<longrightarrow>
            updateOrderToPaid orderSchema now i paymentResultData authUser st =
              (Inl (ErrorResponse ''Order is already paid'' 400), st))
       \<and> (\<not> o_isPaid order \<and> au_role authUser \<noteq> ''admin'' \<longrightarrow>
            updateOrderToPaid orderSchema now i paymentResultData authUser st =
              (Inl (ErrorResponse ''Not authorized to mark order as paid'' 403), st))
       \<and> (\<forall>paid st'. updateOrderToPaid orderSchema now i paymentResultData authUser st =
              (Inr paid, st') \<longrightarrow> au_role authUser = ''admin'' \<and> \<not> o_isPaid order)"
proof -
  have idm: "o_id order = i"
    using find_Some_holds [OF found [unfolded findOrder_def]] by simp
  let ?u = "order\<lparr>o_isPaid := True, o_paidAt := Some now,
                   o_paymentResult := Some paymentResultData\<rparr>"
  have saved: "findOrder i (updateFirst (\<lambda>x. o_id x = i) (\<lambda>_. ?u) (orders st)) = Some ?u"
    using found idm by (intro findOrder_saved) simp_all
  show ?thesis
    using found idm saved
    by (auto simp: updateOrderToPaid_def Let_def split: if_splits)
qed

theorem updateOrderToPaid_transition_witness:
  "(\<exists>st'. updateOrderToPaid (\<lambda>_. True) 1700000000000 ''o1'' [(''status'', ''COMPLETED'')] admin
             (orderBook False) =
        (Inr ((placedOrder False)\<lparr>o_isPaid := True, o_paidAt := Some 1700000000000,
               o_paymentResult := Some [(''status'', ''COMPLETED'')]\<rparr>), st') \<and>
        findOrder ''o1'' (orders st') =
          Some ((placedOrder False)\<lparr>o_isPaid := True, o_paidAt := Some 1700000000000,
                 o_paymentResult := Some [(''status'', ''COMPLETED'')]\<rparr>) \<and>
        medicines st' = medicines (orderBook False))
   \<and> updateOrderToPaid (\<lambda>_. True) 1700000000000 ''o1'' [(''status'', ''COMPLETED'')] admin
        (orderBook True) = (Inl (ErrorResponse ''Order is already paid'' 400), orderBook True)
   \<and> updateOrderToPaid (\<lambda>_. True) 1700000000000 ''o1'' [(''status'', ''COMPLETED'')] customer
        (orderBook False) =
        (Inl (ErrorResponse ''Not authorized to mark order as paid'' 403), orderBook False)"
proof -
  have f: "\<And>b. findOrder ''o1'' (orders (orderBook b)) = Some (placedOrder b)"
    by (simp add: findOrder_def orderBook_def placedOrder_def orderDocument_def)
  have p: "\<And>b. o_isPaid (placedOrder b) = b"
    by (simp add: placedOrder_def)
  show ?thesis
    using updateOrderToPaid_transition [OF f [of False], where authUser = admin
            and orderSchema = "\<lambda>_. True" and now = 1700000000000
            and paymentResultData = "[(''status'', ''COMPLETED'')]"]
          updateOrderToPaid_transition [OF f [of True], where authUser = admin
            and orderSchema = "\<lambda>_. True" and now = 1700000000000
            and paymentResultData = "[(''status'', ''COMPLETED'')]"]
          updateOrderToPaid_transition [OF f [of False], where authUser = customer
            and orderSchema = "\<lambda>_. True" and now = 1700000000000
            and paymentResultData = "[(''status'', ''COMPLETED'')]"]
    by (simp add: p admin_def customer_def)
qed

section \<open>Appointment booking\<close>














text \<open>
  An empty string in place of a reference is not "supplied" for the two
  exclusivity tests, but it reaches the document: with a stored doctor and
  \<open>lab: ''\<close> the request takes the doctor branch and fails in the cast of
  \<open>lab\<close>.
\<close>

lemma createAppointment_empty_lab_reference:
  "createAppointment ''a1'' 0 (booking (Some doctorD) (Some []) None) ''u1'' emptyClinic =
     (Inl (ValidationError [''Cast to ObjectId failed at path lab'']), emptyClinic)"
proof -
  have ids: "isObjectId doctorD"
    by (simp add: isObjectId_def hexChar_def doctorD_def)
  have fd: "findDoctor doctorD (doctors emptyClinic) = Some (drX\<lparr>d_id := doctorD\<rparr>)"
    by (simp add: findDoctor_def emptyClinic_def)
  have ne: "doctorD \<noteq> []" "\<not> isObjectId []"
    by (simp_all add: doctorD_def isObjectId_def)
  show ?thesis
    using ids fd ne
    by (simp add: createAppointment_def doctorBranch_def Appointment_create_def
        validateAppointment_def validateLocation_def booking_def drX_def truthy_def
        typeEnum_def Let_def)
qed

lemma map_updateFirst_found:
  "find P xs = Some a \<Longrightarrow> f (g a) = f a \<Longrightarrow> map f (updateFirst P g xs) = map f xs"
  by (induction xs) (auto split: if_splits)

lemma findAppointment_saved:
  "findAppointment i xs = Some a \<Longrightarrow> a_id a' = i \<Longrightarrow>
   findAppointment i (updateFirst (\<lambda>b. a_id b = i) (\<lambda>_. a') xs) = Some a'"
  unfolding findAppointment_def by (rule find_updateFirst_same)

lemma findByIdAndUpdate_status_reason:
  assumes found: "findAppointment i (appointments st) = Some a"
  shows "\<exists>res st'. Appointment_findByIdAndUpdate i (noUpdate\<lparr>up_status := s, up_reason := r\<rparr>) st = (res, st') \<and>
           map (\<lambda>x. x\<lparr>a_status := [], a_reason := None\<rparr>) (appointments st') =
             map (\<lambda>x. x\<lparr>a_status := [], a_reason := None\<rparr>) (appointments st) \<and>
           doctors st' = doctors st \<and> labs st' = labs st \<and>
           (\<forall>v. res = Inr v \<longrightarrow>
              (\<exists>a'. v = Some a' \<and> findAppointment i (appointments st') = Some a' \<and>
                 a'\<lparr>a_status := a_status a, a_reason := a_reason a\<rparr> = a \<and>
                 a_status a' = (case s of None \<Rightarrow> a_status a | Some x \<Rightarrow> x) \<and>
                 a_reason a' = (case r of None \<Rightarrow> a_reason a | Some x \<Rightarrow> Some x))) \<and>
           (\<forall>e. res = Inl e \<longrightarrow> st' = st)"
proof -
  let ?u = "noUpdate\<lparr>up_status := s, up_reason := r\<rparr>"
  let ?a' = "applyUpdate ?u a"
  have idm: "a_id a = i"
    using find_Some_holds [OF found [unfolded findAppointment_def]] by simp
  have a': "?a' = a\<lparr>a_status := (case s of None \<Rightarrow> a_status a | Some x \<Rightarrow> x),
                     a_reason := (case r of None \<Rightarrow> a_reason a | Some x \<Rightarrow> Some x)\<rparr>"
    by (simp add: applyUpdate_def noUpdate_def)
  have nt: "\<not> touchesIndex ?u"
    by (simp add: touchesIndex_def noUpdate_def)
  have m: "map (\<lambda>x. x\<lparr>a_status := [], a_reason := None\<rparr>)
             (updateFirst (\<lambda>b. a_id b = i) (\<lambda>_. ?a') (appointments st)) =
           map (\<lambda>x. x\<lparr>a_status := [], a_reason := None\<rparr>) (appointments st)"
    using found [unfolded findAppointment_def]
    by (rule map_updateFirst_found) (simp add: a')
  have f: "findAppointment i (updateFirst (\<lambda>b. a_id b = i) (\<lambda>_. ?a') (appointments st)) = Some ?a'"
    using found by (rule findAppointment_saved) (simp add: a' idm)
  show ?thesis
  proof (cases "validateUpdate ?u = []")
    case True
    then have "Appointment_findByIdAndUpdate i ?u st =
                 (Inr (Some ?a'),
                  st\<lparr>appointments := updateFirst (\<lambda>b. a_id b = i) (\<lambda>_. ?a') (appointments st)\<rparr>)"
      using found nt by (simp add: Appointment_findByIdAndUpdate_def Let_def)
    then show ?thesis
      using m f by (simp add: a')
  next
    case False
    then have "Appointment_findByIdAndUpdate i ?u st = (Inl (ValidationError (validateUpdate ?u)), st)"
      by (simp add: Appointment_findByIdAndUpdate_def)
    then show ?thesis by simp
  qed
qed

text \<open>
  Claim C5. An update by a doctor-role principal whose doctor profile is the one
  the appointment is assigned to: whatever the payload holds, the appointments
  collection after the call equals the one before once \<open>status\<close> and
  \<open>reason\<close> are masked, doctors and labs are unchanged, and on success the
  stored appointment is the old one with \<open>status\<close> and \<open>reason\<close>
  taken from the payload where it sets them; when the call throws, nothing changed.
\<close>

theorem updateAppointment_doctor_frame:
  assumes found: "findAppointment i (appointments st) = Some a"
    and role: "au_role authUser = ''doctor''"
    and profile: "find (\<lambda>d. d_user d = au_id authUser) (doctors st) = Some doctorProfile"
    and assigned: "a_doctor a = Some (d_id doctorProfile)"
  shows "\<exists>res st'. updateAppointment i updateData authUser st = (res, st') \<and>
           map (\<lambda>x. x\<lparr>a_status := [], a_reason := None\<rparr>) (appointments st') =
             map (\<lambda>x. x\<lparr>a_status := [], a_reason := None\<rparr>) (appointments st) \<and>
           doctors st' = doctors st \<and> labs st' = labs st \<and>
           (\<forall>v. res = Inr v \<longrightarrow>
              (\<exists>a'. v = Some a' \<and> findAppointment i (appointments st') = Some a' \<and>
                 a'\<lparr>a_status := a_status a, a_reason := a_reason a\<rparr> = a \<and>
                 a_status a' = (case up_status updateData of None \<Rightarrow> a_status a | Some x \<Rightarrow> x) \<and>
                 a_reason a' = (case up_reason updateData of None \<Rightarrow> a_reason a | Some x \<Rightarrow> Some x))) \<and>
           (\<forall>e. res = Inl e \<longrightarrow> st' = st)"
proof -
  have "updateAppointment i updateData authUser st =
          Appointment_findByIdAndUpdate i
            (noUpdate\<lparr>up_status := up_status updateData, up_reason := up_reason updateData\<rparr>) st"
    using found role profile assigned by (simp add: updateAppointment_def)
  then show ?thesis
    using findByIdAndUpdate_status_reason [OF found, where s = "up_status updateData"
            and r = "up_reason updateData"]
    by simp
qed

theorem updateAppointment_doctor_frame_witness:
  "updateAppointment ''a1'' wideUpdate drXUser busyClinic =
     (Inr (Some (visit\<lparr>a_status := ''confirmed'', a_reason := Some ''Seen''\<rparr>)),
      busyClinic\<lparr>appointments := [visit\<lparr>a_status := ''confirmed'', a_reason := Some ''Seen''\<rparr>]\<rparr>)
   \<and> (\<exists>res st'. updateAppointment ''a1'' wideUpdate drXUser busyClinic = (res, st') \<and>
           map (\<lambda>x. x\<lparr>a_status := [], a_reason := None\<rparr>) (appointments st') =
             map (\<lambda>x. x\<lparr>a_status := [], a_reason := None\<rparr>) (appointments busyClinic) \<and>
           doctors st' = doctors busyClinic \<and> labs st' = labs busyClinic)"
proof -
  have h: "findAppointment ''a1'' (appointments busyClinic) = Some visit"
    "au_role drXUser = ''doctor''"
    "find (\<lambda>d. d_user d = au_id drXUser) (doctors busyClinic) = Some drX"
    "a_doctor visit = Some (d_id drX)"
    by (simp_all add: findAppointment_def busyClinic_def visit_def drXUser_def drX_def)
  have e: "updateAppointment ''a1'' wideUpdate drXUser busyClinic =
     (Inr (Some (visit\<lparr>a_status := ''confirmed'', a_reason := Some ''Seen''\<rparr>)),
      busyClinic\<lparr>appointments := [visit\<lparr>a_status := ''confirmed'', a_reason := Some ''Seen''\<rparr>]\<rparr>)"
    using h
    by (simp add: updateAppointment_def Appointment_findByIdAndUpdate_def validateUpdate_def
        validateLocation_def applyUpdate_def touchesIndex_def noUpdate_def wideUpdate_def
        statusEnum_def Let_def busyClinic_def visit_def)
  show ?thesis
    using updateAppointment_doctor_frame [OF h, of wideUpdate] e by auto
qed

text \<open>
  Claim C6. An update of a stored appointment by a user-role principal: when the
  principal owns the appointment and asks for status "cancelled", the call
  succeeds and the stored status is "cancelled", nothing else changed; when the
  requested status is anything else, or the principal is not the owner, the call
  throws the 401 error and the store is unchanged.
\<close>

theorem updateAppointment_user_cancel:
  assumes found: "findAppointment i (appointments st) = Some a"
    and role: "au_role authUser = ''user''"
  shows "(a_user a = au_id authUser \<and> up_status updateData = Some ''cancelled'' \<longrightarrow>
            (\<exists>st'. updateAppointment i updateData authUser st =
                      (Inr (Some (a\<lparr>a_status := ''cancelled''\<rparr>)), st') \<and>
                    findAppointment i (appointments st') = Some (a\<lparr>a_status := ''cancelled''\<rparr>) \<and>
                    map (\<lambda>x. x\<lparr>a_status := []\<rparr>) (appointments st') =
                      map (\<lambda>x. x\<lparr>a_status := []\<rparr>) (appointments st) \<and>
                    doctors st' = doctors st \<and> labs st' = labs st))
       \<and> (a_user a \<noteq> au_id authUser \<or> up_status updateData \<noteq> Some ''cancelled'' \<longrightarrow>
            updateAppointment i updateData authUser st =
              (Inl (ErrorResponse (''User '' @ au_id authUser @
                 '' is not authorized to update this appointment or perform this action'') 401), st))"
proof -
  let ?u = "noUpdate\<lparr>up_status := Some ''cancelled''\<rparr>"
  let ?a' = "a\<lparr>a_status := ''cancelled''\<rparr>"
  have idm: "a_id a = i"
    using find_Some_holds [OF found [unfolded findAppointment_def]] by simp
  have a': "applyUpdate ?u a = ?a'"
    by (simp add: applyUpdate_def noUpdate_def)
  have nt: "\<not> touchesIndex ?u"
    by (simp add: touchesIndex_def noUpdate_def)
  have v: "validateUpdate ?u = []"
    by (simp add: validateUpdate_def noUpdate_def validateLocation_def statusEnum_def)
  have m: "map (\<lambda>x. x\<lparr>a_status := []\<rparr>)
             (updateFirst (\<lambda>b. a_id b = i) (\<lambda>_. ?a') (appointments st)) =
           map (\<lambda>x. x\<lparr>a_status := []\<rparr>) (appointments st)"
    using found [unfolded findAppointment_def]
    by (rule map_updateFirst_found) simp
  have f: "findAppointment i (updateFirst (\<lambda>b. a_id b = i) (\<lambda>_. ?a') (appointments st)) = Some ?a'"
    using found by (rule findAppointment_saved) (simp add: idm)
  have upd: "Appointment_findByIdAndUpdate i ?u st =
               (Inr (Some ?a'),
                st\<lparr>appointments := updateFirst (\<lambda>b. a_id b = i) (\<lambda>_. ?a') (appointments st)\<rparr>)"
    using found nt v a' by (simp add: Appointment_findByIdAndUpdate_def Let_def)
  show ?thesis
  proof (intro conjI impI)
    assume "a_user a = au_id authUser \<and> up_status updateData = Some ''cancelled''"
    then have "updateAppointment i updateData authUser st = Appointment_findByIdAndUpdate i ?u st"
      using found role by (simp add: updateAppointment_def)
    then show "\<exists>st'. updateAppointment i updateData authUser st =
                      (Inr (Some (a\<lparr>a_status := ''cancelled''\<rparr>)), st') \<and>
                    findAppointment i (appointments st') = Some (a\<lparr>a_status := ''cancelled''\<rparr>) \<and>
                    map (\<lambda>x. x\<lparr>a_status := []\<rparr>) (appointments st') =
                      map (\<lambda>x. x\<lparr>a_status := []\<rparr>) (appointments st) \<and>
                    doctors st' = doctors st \<and> labs st' = labs st"
      using upd m f by simp
  next
    assume "a_user a \<noteq> au_id authUser \<or> up_status updateData \<noteq> Some ''cancelled''"
    then show "updateAppointment i updateData authUser st =
              (Inl (ErrorResponse (''User '' @ au_id authUser @
                 '' is not authorized to update this appointment or perform this action'') 401), st)"
      using found role by (auto simp: updateAppointment_def)
  qed
qed

theorem updateAppointment_user_cancel_witness:
  "(\<exists>st'. updateAppointment ''a1'' (noUpdate\<lparr>up_status := Some ''cancelled''\<rparr>) customer busyClinic =
            (Inr (Some (visit\<lparr>a_status := ''cancelled''\<rparr>)), st') \<and>
          findAppointment ''a1'' (appointments st') = Some (visit\<lparr>a_status := ''cancelled''\<rparr>))
   \<and> updateAppointment ''a1'' (noUpdate\<lparr>up_status := Some ''confirmed''\<rparr>) customer busyClinic =
       (Inl (ErrorResponse
          ''User u1 is not authorized to update this appointment or perform this action'' 401),
        busyClinic)
   \<and> updateAppointment ''a1'' (noUpdate\<lparr>up_status := Some ''cancelled''\<rparr>)
        \<lparr> au_id = ''u2'', au_role = ''user'' \<rparr> busyClinic =
       (Inl (ErrorResponse
          ''User u2 is not authorized to update this appointment or perform this action'' 401),
        busyClinic)"
proof -
  have h: "findAppointment ''a1'' (appointments busyClinic) = Some visit"
    by (simp add: findAppointment_def busyClinic_def visit_def)
  have r: "au_role customer = ''user''" "au_role \<lparr> au_id = ''u2'', au_role = ''user'' \<rparr> = ''user''"
    by (simp_all add: customer_def)
  show ?thesis
    using updateAppointment_user_cancel [OF h r(1), of "noUpdate\<lparr>up_status := Some ''cancelled''\<rparr>"]
      updateAppointment_user_cancel [OF h r(1), of "noUpdate\<lparr>up_status := Some ''confirmed''\<rparr>"]
      updateAppointment_user_cancel [OF h r(2), of "noUpdate\<lparr>up_status := Some ''cancelled''\<rparr>"]
    by (auto simp: customer_def visit_def)
qed


section \<open>List reads\<close>

lemma query_filter' [simp]: "query (filter' f) = query f"
  by (simp add: filter'_def Let_def)

lemma queryString_filter' [simp]: "queryString (filter' f) = queryString f"
  by (simp add: filter'_def Let_def)

lemma getMedicines_query_unfiltered:
  "sort' (filter' (APIFeatures Model_find qs)) = Inr f1 \<Longrightarrow> limitFields f1 = Inr f2 \<Longrightarrow>
   q_conditions (query (paginate f2)) = []"
  by (auto simp: sort'_def limitFields_def paginate_def filter'_def APIFeatures_def Model_find_def
      Let_def split: option.splits json.splits if_splits)

text \<open>
  Claim C2. The claim fails on the code: \<open>getMedicines\<close> computes the filter
  conditions but never applies them to the query. With the single stored
  medicine of category "Pain Relief" and the request \<open>?category=Vitamins\<close>, the
  filter conditions are \<open>{category: "Vitamins"}\<close>, the medicine does not satisfy
  them, and it is returned all the same.
\<close>

theorem getMedicines_ignores_filter:
  "getMedicines sampleMongo [(''category'', JStr ''Vitamins'')] (pharmacy 10) =
     Inr \<lparr> count = 1, data = [paracetamol 10] \<rparr>
   \<and> filterConditions (filter' (APIFeatures Model_find [(''category'', JStr ''Vitamins'')])) =
       [(''category'', JStr ''Vitamins'')]
   \<and> \<not> holds medicineField (paracetamol 10) (JObj [(''category'', JStr ''Vitamins'')])"
proof -
  have "getMedicines sampleMongo [(''category'', JStr ''Vitamins'')] (pharmacy 10) =
          Inr \<lparr> count = 1, data = [paracetamol 10] \<rparr>"
    by (simp add: getMedicines_def sort'_def limitFields_def paginate_def exec_def APIFeatures_def
        Model_find_def parseIntOr_def sampleMongo_def pharmacy_def Let_def)
  moreover have "filterConditions (filter' (APIFeatures Model_find [(''category'', JStr ''Vitamins'')])) =
       [(''category'', JStr ''Vitamins'')]"
    by (simp add: APIFeatures_def filter'_def excludedFields_def wordChar_def flushWord_def Let_def)
  moreover have "\<not> holds medicineField (paracetamol 10) (JObj [(''category'', JStr ''Vitamins'')])"
    by (simp add: paracetamol_def medicineField_def medicineText_def)
  ultimately show ?thesis by simp
qed

lemma holds_search_fields:
  "''$and'' \<notin> set fs \<Longrightarrow> ''$or'' \<notin> set fs \<Longrightarrow>
   list_ex (holds leaf d) (map (\<lambda>field. JObj [(field, c)]) fs) =
   list_ex (\<lambda>field. leaf d field c) fs"
  by (induction fs) auto

text \<open>
  \<open>applyFind\<close> is where the accumulated conditions reach the query. On the
  query built by \<open>search\<close>, \<open>filter\<close> and \<open>applyFind\<close> from \<open>Model.find()\<close>,
  with a keyword and at least one filter parameter in the request and at least
  one searchable field (none of them an operator name), the documents returned
  are exactly those that match the keyword on one of the searchable fields and
  satisfy the filter conditions. No service calls this chain.
\<close>

lemma applyFind_keyword_and_filter:
  assumes kw: "map_of qs ''keyword'' = Some keyword" "jsTruthy (Some keyword)"
    and some: "searchFields \<noteq> []"
    and sf: "''$and'' \<notin> set searchFields" "''$or'' \<notin> set searchFields"
    and filt: "filterConditions (filter' (APIFeatures Model_find qs)) \<noteq> []"
  shows "exec db coll (query (applyFind (filter' (search searchFields (APIFeatures Model_find qs))))) =
     Inr (filter (\<lambda>d. list_ex (\<lambda>field. field_matches db d field
                                   (JObj [(''$regex'', keyword), (''$options'', JStr ''i'')]))
                         searchFields \<and>
                      holds (field_matches db) d
                        (JObj (filterConditions (filter' (APIFeatures Model_find qs))))) coll)"
proof -
  let ?F = "filterConditions (filter' (APIFeatures Model_find qs))"
  let ?S = "[(''$or'', JArr (map (\<lambda>field. JObj [(field, JObj [(''$regex'', keyword),
                                                                 (''$options'', JStr ''i'')])])
                                      searchFields))]"
  have s: "search searchFields (APIFeatures Model_find qs) =
             (APIFeatures Model_find qs)\<lparr>searchConditions := ?S\<rparr>"
    using kw by (simp add: search_def APIFeatures_def)
  have f: "filter' ((APIFeatures Model_find qs)\<lparr>searchConditions := ?S\<rparr>) =
             (APIFeatures Model_find qs)\<lparr>searchConditions := ?S, filterConditions := ?F\<rparr>"
    by (simp add: filter'_def APIFeatures_def Let_def)
  have a: "q_conditions (query (applyFind ((APIFeatures Model_find qs)\<lparr>searchConditions := ?S,
              filterConditions := ?F\<rparr>))) = [(''$and'', JArr [JObj ?S, JObj ?F])]"
    using filt by (simp add: applyFind_def find'_def APIFeatures_def Model_find_def Let_def)
  have o: "q_sort (query (applyFind ((APIFeatures Model_find qs)\<lparr>searchConditions := ?S,
              filterConditions := ?F\<rparr>))) = None"
    "q_skip (query (applyFind ((APIFeatures Model_find qs)\<lparr>searchConditions := ?S,
              filterConditions := ?F\<rparr>))) = None"
    "q_limit (query (applyFind ((APIFeatures Model_find qs)\<lparr>searchConditions := ?S,
              filterConditions := ?F\<rparr>))) = None"
    "q_select (query (applyFind ((APIFeatures Model_find qs)\<lparr>searchConditions := ?S,
              filterConditions := ?F\<rparr>))) = None"
    by (simp_all add: applyFind_def find'_def APIFeatures_def Model_find_def Let_def)
  have h: "holds (field_matches db) d (JObj [(''$and'', JArr [JObj ?S, JObj ?F])]) =
           (list_ex (\<lambda>field. field_matches db d field
                                   (JObj [(''$regex'', keyword), (''$options'', JStr ''i'')]))
                         searchFields \<and> holds (field_matches db) d (JObj ?F))" for d
    using holds_search_fields [OF sf, of "field_matches db" d] by simp
  show ?thesis
    unfolding s f
    by (simp add: exec_def a o h Let_def del: holds.simps)
qed





lemma applyFind_keyword_and_filter_example:
  "exec sampleMongo [paracetamol 10, paracetamolForte]
     (query (applyFind (filter' (search [''name'', ''description'']
        (APIFeatures Model_find [(''keyword'', JStr ''para''), (''category'', JStr ''Pain Relief'')]))))) =
     Inr [paracetamol 10]
   \<and> exec sampleMongo [paracetamol 10, paracetamolForte]
     (query (applyFind (filter' (search [''name'', ''description'']
        (APIFeatures Model_find [(''keyword'', JStr ''para''), (''category'', JStr ''Vitamins'')]))))) =
     Inr []"
proof -
  have c: "filterConditions (filter' (APIFeatures Model_find
              [(''keyword'', JStr ''para''), (''category'', JStr ''Pain Relief'')])) =
             [(''category'', JStr ''Pain Relief'')]"
    "filterConditions (filter' (APIFeatures Model_find
              [(''keyword'', JStr ''para''), (''category'', JStr ''Vitamins'')])) =
             [(''category'', JStr ''Vitamins'')]"
    by (simp_all add: APIFeatures_def Model_find_def filter'_def excludedFields_def wordChar_def
        flushWord_def controlChar_def Let_def)
  have k: "isInfix (lowerCase ''para'') (lowerCase ''Paracetamol'')"
    by (simp add: lowerCase_def)
  have m: "medicineField (paracetamol 10) ''name''
             (JObj [(''$regex'', JStr ''para''), (''$options'', JStr ''i'')])"
    "medicineField (paracetamol 10) ''category'' (JStr ''Pain Relief'')"
    "\<not> medicineField (paracetamol 10) ''category'' (JStr ''Vitamins'')"
    "\<not> medicineField paracetamolForte ''category'' (JStr ''Pain Relief'')"
    "\<not> medicineField paracetamolForte ''category'' (JStr ''Vitamins'')"
    by (simp_all add: k medicineField_def medicineText_def paracetamol_def paracetamolForte_def)
  have "exec sampleMongo [paracetamol 10, paracetamolForte]
     (query (applyFind (filter' (search [''name'', ''description'']
        (APIFeatures Model_find [(''keyword'', JStr ''para''), (''category'', JStr ''Pain Relief'')]))))) =
     Inr (filter (\<lambda>d. list_ex (\<lambda>field. field_matches sampleMongo d field
                                   (JObj [(''$regex'', JStr ''para''), (''$options'', JStr ''i'')]))
                         [''name'', ''description''] \<and>
                      holds (field_matches sampleMongo) d
                        (JObj (filterConditions (filter' (APIFeatures Model_find
                           [(''keyword'', JStr ''para''), (''category'', JStr ''Pain Relief'')])))))
            [paracetamol 10, paracetamolForte])"
    by (rule applyFind_keyword_and_filter) (simp_all add: c jsTruthy_def)
  then have e1: "exec sampleMongo [paracetamol 10, paracetamolForte]
     (query (applyFind (filter' (search [''name'', ''description'']
        (APIFeatures Model_find [(''keyword'', JStr ''para''), (''category'', JStr ''Pain Relief'')]))))) =
     Inr [paracetamol 10]"
    by (simp add: c m sampleMongo_def)
  have "exec sampleMongo [paracetamol 10, paracetamolForte]
     (query (applyFind (filter' (search [''name'', ''description'']
        (APIFeatures Model_find [(''keyword'', JStr ''para''), (''category'', JStr ''Vitamins'')]))))) =
     Inr (filter (\<lambda>d. list_ex (\<lambda>field. field_matches sampleMongo d field
                                   (JObj [(''$regex'', JStr ''para''), (''$options'', JStr ''i'')]))
                         [''name'', ''description''] \<and>
                      holds (field_matches sampleMongo) d
                        (JObj (filterConditions (filter' (APIFeatures Model_find
                           [(''keyword'', JStr ''para''), (''category'', JStr ''Vitamins'')])))))
            [paracetamol 10, paracetamolForte])"
    by (rule applyFind_keyword_and_filter) (simp_all add: c jsTruthy_def)
  then have e2: "exec sampleMongo [paracetamol 10, paracetamolForte]
     (query (applyFind (filter' (search [''name'', ''description'']
        (APIFeatures Model_find [(''keyword'', JStr ''para''), (''category'', JStr ''Vitamins'')]))))) =
     Inr []"
    by (simp add: c m sampleMongo_def)
  show ?thesis
    using e1 e2 by (rule conjI)
qed

text \<open>
  Claim C4. The claim fails on the code: the list endpoint that is sent a
  keyword, \<open>GET /api/v1/medicines\<close>, is served by \<open>getMedicines\<close>, which
  calls neither \<open>search\<close> nor \<open>applyFind\<close>. With the request
  \<open>?keyword=para&category=Vitamins\<close> on two stored medicines, the first matches
  the keyword on its name and fails the category filter, and both medicines are
  returned.
\<close>

theorem getMedicines_ignores_keyword_and_filter:
  "getMedicines sampleMongo [(''keyword'', JStr ''para''), (''category'', JStr ''Vitamins'')]
     \<lparr> medicines = [paracetamol 10, paracetamolForte], orders = [] \<rparr> =
     Inr \<lparr> count = 2, data = [paracetamol 10, paracetamolForte] \<rparr>
   \<and> medicineField (paracetamol 10) ''name''
         (JObj [(''$regex'', JStr ''para''), (''$options'', JStr ''i'')])
   \<and> \<not> medicineField (paracetamol 10) ''category'' (JStr ''Vitamins'')"
proof -
  have "getMedicines sampleMongo [(''keyword'', JStr ''para''), (''category'', JStr ''Vitamins'')]
     \<lparr> medicines = [paracetamol 10, paracetamolForte], orders = [] \<rparr> =
     Inr \<lparr> count = 2, data = [paracetamol 10, paracetamolForte] \<rparr>"
    by (simp add: getMedicines_def sort'_def limitFields_def paginate_def exec_def APIFeatures_def
        Model_find_def parseIntOr_def sampleMongo_def Let_def)
  moreover have "isInfix (lowerCase ''para'') (lowerCase ''Paracetamol'')"
    by (simp add: lowerCase_def)
  then have "medicineField (paracetamol 10) ''name''
         (JObj [(''$regex'', JStr ''para''), (''$options'', JStr ''i'')])"
    by (simp add: medicineField_def medicineText_def paracetamol_def)
  moreover have "\<not> medicineField (paracetamol 10) ''category'' (JStr ''Vitamins'')"
    by (simp add: medicineField_def medicineText_def paracetamol_def)
  ultimately show ?thesis by simp
qed

section \<open>Medicine ownership\<close>

text \<open>
  Claim C10. For a stored medicine without an owning user, \<open>updateMedicine\<close>
  and \<open>deleteMedicine\<close> throw a TypeError for every principal, admins
  included, whatever the update, and the shop is unchanged; for a stored
  medicine with an owning user neither of them ever throws a TypeError.
\<close>

theorem medicine_owner_dereference:
  assumes found: "findMedicine i (medicines st) = Some medicine"
  shows "(m_user medicine = None \<longrightarrow>
            (\<forall>authUser updateData. updateMedicine i updateData authUser st =
               (Inl (TypeError ''Cannot read properties of undefined (reading toString)''), st)) \<and>
            (\<forall>authUser. deleteMedicine i authUser st =
               (Inl (TypeError ''Cannot read properties of undefined (reading toString)''), st)))
       \<and> (m_user medicine \<noteq> None \<longrightarrow>
            (\<forall>authUser updateData msg. fst (updateMedicine i updateData authUser st) \<noteq> Inl (TypeError msg)) \<and>
            (\<forall>authUser msg. fst (deleteMedicine i authUser st) \<noteq> Inl (TypeError msg)))"
  using found
  by (auto simp: updateMedicine_def deleteMedicine_def Medicine_findByIdAndUpdate_def Let_def
      split: option.splits if_splits)

theorem medicine_owner_dereference_witness:
  "updateMedicine ''m1'' \<lparr> mu_name = None, mu_description = None, mu_price = Some 8, mu_stock = None,
       mu_category = None, mu_imageUrl = None, mu_manufacturer = None, mu_expirationDate = None,
       mu_user = None \<rparr> admin \<lparr> medicines = [(paracetamol 7)\<lparr>m_user := None\<rparr>], orders = [] \<rparr> =
     (Inl (TypeError ''Cannot read properties of undefined (reading toString)''),
      \<lparr> medicines = [(paracetamol 7)\<lparr>m_user := None\<rparr>], orders = [] \<rparr>)
   \<and> deleteMedicine ''m1'' admin \<lparr> medicines = [(paracetamol 7)\<lparr>m_user := None\<rparr>], orders = [] \<rparr> =
     (Inl (TypeError ''Cannot read properties of undefined (reading toString)''),
      \<lparr> medicines = [(paracetamol 7)\<lparr>m_user := None\<rparr>], orders = [] \<rparr>)
   \<and> fst (deleteMedicine ''m1'' admin (pharmacy 7)) = Inr ()"
proof -
  have f: "findMedicine ''m1'' (medicines \<lparr> medicines = [(paracetamol 7)\<lparr>m_user := None\<rparr>], orders = [] \<rparr>) =
             Some ((paracetamol 7)\<lparr>m_user := None\<rparr>)"
    by (simp add: findMedicine_def paracetamol_def)
  have g: "findMedicine ''m1'' (medicines (pharmacy 7)) = Some (paracetamol 7)"
    by (simp add: findMedicine_def pharmacy_def paracetamol_def)
  have d: "fst (deleteMedicine ''m1'' admin (pharmacy 7)) = Inr ()"
    using medicine_owner_dereference [OF g]
    by (cases "fst (deleteMedicine ''m1'' admin (pharmacy 7))")
       (auto simp: deleteMedicine_def g paracetamol_def admin_def)
  show ?thesis
    using medicine_owner_dereference [OF f] d by simp
qed


section \<open>Password reset\<close>










text \<open>
  Claim C8. A forgot-password request for an email that no user has is answered
  with status 200 and "Email sent", leaves the users collection as it was and
  delivers no mail; and every request for a known email whose mail is delivered
  gets that same response.
\<close>

theorem forgotPassword_no_enumeration:
  assumes unknown: "find (\<lambda>v. u_email v = unknown) users = None"
  shows "forgotPassword c sendEmail randomBytes now protocol host unknown users =
           (JsonData 200 ''Email sent'', users, [])
       \<and> (\<forall>known u randomBytes' now'.
             find (\<lambda>v. u_email v = known) users = Some u \<and>
             sendEmail (resetMail protocol host u (toHex randomBytes')) \<longrightarrow>
             fst (forgotPassword c sendEmail randomBytes' now' protocol host known users) =
             fst (forgotPassword c sendEmail randomBytes now protocol host unknown users))"
  using unknown
  by (auto simp: forgotPassword_def getResetPasswordToken_def resetMail_def Let_def)

theorem forgotPassword_no_enumeration_witness:
  "forgotPassword sampleCrypto (\<lambda>m. True) sampleBytes 1000 ''https'' ''kw.example''
       ''bob@example.com'' [alice] = (JsonData 200 ''Email sent'', [alice], [])
   \<and> fst (forgotPassword sampleCrypto (\<lambda>m. True) sampleBytes 1000 ''https'' ''kw.example''
       ''alice@example.com'' [alice]) =
     fst (forgotPassword sampleCrypto (\<lambda>m. True) sampleBytes 1000 ''https'' ''kw.example''
       ''bob@example.com'' [alice])"
proof -
  have a: "find (\<lambda>v. u_email v = ''bob@example.com'') [alice] = None"
    by (simp add: alice_def)
  have b: "find (\<lambda>v. u_email v = ''alice@example.com'') [alice] = Some alice"
    by (simp add: alice_def)
  show ?thesis
    using forgotPassword_no_enumeration [OF a, of sampleCrypto "\<lambda>m. True" sampleBytes 1000
            "''https''" "''kw.example''"] b
    by blast
qed

end
